theory Spec2Isabelle
  imports Main "HOL-Library.Word"
begin

section \<open>JavaScript values carried by socket events\<close>

text \<open>
  The server's handlers take their payloads as \<open>any\<close>; a payload is whatever JSON value the
  peer sent. The server never looks inside a string (it only tests one for emptiness and
  compares keys, event names and room names), and tests a number only for truthiness:
  strings are lists of characters, numbers are integers. An object lists its properties,
  each key once; a lookup takes the first entry of a key.
\<close>

datatype jsval =
    JUndefined
  | JNull
  | JBool bool
  | JNum int
  | JStr string
  | JArr "jsval list"
  | JObj "(string \<times> jsval) list"

text \<open>Truthiness, as \<open>||\<close>, \<open>&&\<close> and \<open>if\<close> test it.\<close>

fun truthy :: "jsval \<Rightarrow> bool" where
  "truthy JUndefined = False"
| "truthy JNull = False"
| "truthy (JBool b) = b"
| "truthy (JNum n) = (n \<noteq> 0)"
| "truthy (JStr s) = (s \<noteq> [])"
| "truthy (JArr xs) = True"
| "truthy (JObj kvs) = True"

text \<open>\<open>null\<close> and \<open>undefined\<close>: what \<open>??\<close> skips, and where a property read throws.\<close>

fun nullish :: "jsval \<Rightarrow> bool" where
  "nullish JUndefined = True"
| "nullish JNull = True"
| "nullish v = False"

text \<open>\<open>typeof v === 'string'\<close>.\<close>

fun typeof_string :: "jsval \<Rightarrow> bool" where
  "typeof_string (JStr s) = True"
| "typeof_string v = False"

text \<open>
  A property read \<open>v.k\<close> on a value that is not nullish: the stored value for an object that
  has the key, \<open>undefined\<close> otherwise (the keys read here are no prototype properties). The
  read on \<open>null\<close> or \<open>undefined\<close> throws; the handlers below test \<open>nullish\<close> before reading.
\<close>

fun get :: "jsval \<Rightarrow> string \<Rightarrow> jsval" where
  "get (JObj kvs) k = (case map_of kvs k of Some v \<Rightarrow> v | None \<Rightarrow> JUndefined)"
| "get v k = JUndefined"

definition js_or :: "jsval \<Rightarrow> jsval \<Rightarrow> jsval" where
  "js_or a b = (if truthy a then a else b)"

definition js_coalesce :: "jsval \<Rightarrow> jsval \<Rightarrow> jsval" where
  "js_coalesce a b = (if nullish a then b else a)"

text \<open>\<open>Number.prototype.toString(36)\<close> on a non-negative integer.\<close>

definition digit36 :: "nat \<Rightarrow> char" where
  "digit36 d = ''0123456789abcdefghijklmnopqrstuvwxyz'' ! (d mod 36)"

fun toString36 :: "nat \<Rightarrow> string" where
  "toString36 n = (if n < 36 then [digit36 n] else toString36 (n div 36) @ [digit36 (n mod 36)])"

declare toString36.simps [simp del]

section \<open>The socket service (services/socket.ts)\<close>

type_synonym sid = string

text \<open>
  The state of one server instance: the connected sockets in connection order, the rooms of
  each socket, whether the Redis adapter is installed on \<open>this._io\<close>, and whether
  \<open>this.pub\<close> and \<open>this.sub\<close> are defined.

  A room is named by a primitive value. An object or array used as a room name is compared
  by identity, so no later payload can name it again: the room sets hold primitive names only.
\<close>

record server =
  conns :: "sid list"
  rooms :: "sid \<Rightarrow> jsval set"
  adapter :: bool
  pub :: bool
  sub :: bool

fun primitive :: "jsval \<Rightarrow> bool" where
  "primitive (JArr xs) = False"
| "primitive (JObj kvs) = False"
| "primitive v = True"

text \<open>
  The argument of \<open>socket.join\<close> and of \<open>io.to\<close> is one room or an array of rooms.
\<close>

fun room_list :: "jsval \<Rightarrow> jsval list" where
  "room_list (JArr xs) = xs"
| "room_list v = [v]"

datatype level = LogInfo | LogWarn | LogError

text \<open>
  What a handler does to the outside: an event delivered to a connection of this instance, a
  payload the service publishes to a broker topic, a broadcast packet that the Redis adapter
  sends on its own broker channel to the other instances (with the rooms addressed, none
  meaning every connection), a console line.
\<close>

datatype effect =
    Emit sid string jsval
  | Publish string string
  | AdapterSend "jsval list" string jsval
  | Console level string

text \<open>
  What the handlers read from their surroundings: \<open>Date.now()\<close>,
  \<open>new Date().toISOString()\<close>, and whether the broker accepts the \<open>publish\<close> call.
\<close>

record env =
  now_ms :: nat
  now_iso :: string
  publish_ok :: bool

text \<open>\<open>JSON.parse\<close> (\<open>None\<close> when it throws) and \<open>JSON.stringify\<close> of the runtime.\<close>

record runtime =
  JSON_parse :: "string \<Rightarrow> jsval option"
  JSON_stringify :: "jsval \<Rightarrow> string"

text \<open>
  How the \<open>try\<close> block of the constructor ends: it runs through, or a statement throws
  before \<open>this._io.adapter(createAdapter(this.pub, this.sub))\<close> has installed the adapter, or
  a statement after it throws.
\<close>

datatype redis_init = Ready | ThrowsBeforeAdapter | ThrowsAfterAdapter

text \<open>
  The constructor: with \<open>USE_REDIS\<close> and a Redis set-up that runs through, both clients
  exist and the adapter is installed; when the set-up throws, both clients are reset to
  \<open>undefined\<close> (an adapter already installed stays); without \<open>USE_REDIS\<close> there is neither.
\<close>

definition SocketService :: "bool \<Rightarrow> redis_init \<Rightarrow> server \<times> effect list" where
  "SocketService use_redis init =
     (if use_redis then
        (case init of
           Ready \<Rightarrow>
             (\<lparr>conns = [], rooms = (\<lambda>s. {}), adapter = True, pub = True, sub = True\<rparr>,
              [Console LogInfo ''Redis adapter initialized (pub/sub configured).''])
         | ThrowsBeforeAdapter \<Rightarrow>
             (\<lparr>conns = [], rooms = (\<lambda>s. {}), adapter = False, pub = False, sub = False\<rparr>,
              [Console LogWarn ''Failed to initialize Redis adapter - falling back to local-only.''])
         | ThrowsAfterAdapter \<Rightarrow>
             (\<lparr>conns = [], rooms = (\<lambda>s. {}), adapter = True, pub = False, sub = False\<rparr>,
              [Console LogWarn ''Failed to initialize Redis adapter - falling back to local-only.'']))
      else
        (\<lparr>conns = [], rooms = (\<lambda>s. {}), adapter = False, pub = False, sub = False\<rparr>,
         [Console LogInfo ''Running in local-only socket mode (no Redis).'']))"

text \<open>
  A broadcast among the connections of one instance: with no room addressed it goes to every
  connection, otherwise to each connection that is in one of the rooms, once.
\<close>

definition local_broadcast :: "server \<Rightarrow> jsval list \<Rightarrow> string \<Rightarrow> jsval \<Rightarrow> effect list" where
  "local_broadcast st rs ev v =
     map (\<lambda>s. Emit s ev v) (filter (\<lambda>s. rs = [] \<or> (\<exists>r \<in> set rs. r \<in> rooms st s)) (conns st))"

text \<open>
  A broadcast of the server: the local one, and with the Redis adapter installed the packet
  that carries it to the other instances.
\<close>

definition broadcast :: "server \<Rightarrow> jsval list \<Rightarrow> string \<Rightarrow> jsval \<Rightarrow> effect list" where
  "broadcast st rs ev v =
     local_broadcast st rs ev v @ (if adapter st then [AdapterSend rs ev v] else [])"

text \<open>\<open>io.emit(ev, v)\<close> addresses no room; \<open>io.to(room).emit(ev, v)\<close> the room or rooms given.\<close>

definition io_emit :: "server \<Rightarrow> string \<Rightarrow> jsval \<Rightarrow> effect list" where
  "io_emit st ev v = broadcast st [] ev v"

definition io_to_emit :: "server \<Rightarrow> jsval \<Rightarrow> string \<Rightarrow> jsval \<Rightarrow> effect list" where
  "io_to_emit st room ev v = broadcast st (room_list room) ev v"

text \<open>
  An instance receives a packet its adapter's subscription brings from another instance: it
  broadcasts among its own connections and sends nothing on.
\<close>

fun adapter_receive :: "server \<Rightarrow> effect \<Rightarrow> effect list" where
  "adapter_receive st (AdapterSend rs ev v) = local_broadcast st rs ev v"
| "adapter_receive st x = []"

text \<open>A new connection; a socket starts in the room named by its own id.\<close>

definition on_connection :: "server \<Rightarrow> sid \<Rightarrow> server \<times> effect list" where
  "on_connection st sock =
     (st\<lparr>conns := conns st @ [sock], rooms := (rooms st)(sock := {JStr sock})\<rparr>,
      [Console LogInfo (''New client connected: '' @ sock)])"

text \<open>
  \<open>socket.join\<close> adds the socket to the room given, or to each room of an array;
  \<open>socket.leave\<close> removes the one room given.
\<close>

definition join_room :: "server \<Rightarrow> sid \<Rightarrow> jsval \<Rightarrow> server \<times> effect list" where
  "join_room st sock p =
     (if truthy p \<and> truthy (get p ''roomId'') then
        (st\<lparr>rooms := (rooms st)
               (sock := rooms st sock \<union> set (filter primitive (room_list (get p ''roomId''))))\<rparr>,
         [Emit sock ''joined_room'' (JObj [(''roomId'', get p ''roomId'')])])
      else (st, []))"

definition leave_room :: "server \<Rightarrow> sid \<Rightarrow> jsval \<Rightarrow> server \<times> effect list" where
  "leave_room st sock p =
     (if truthy p \<and> truthy (get p ''roomId'') then
        (st\<lparr>rooms := (rooms st)(sock := rooms st sock - {get p ''roomId''})\<rparr>, [])
      else (st, []))"

text \<open>
  The object built at the head of the \<open>event:message\<close> handler. \<open>None\<close>: the property read on
  a \<open>null\<close> or \<open>undefined\<close> payload threw.
\<close>

definition messageObject :: "env \<Rightarrow> sid \<Rightarrow> jsval \<Rightarrow> jsval option" where
  "messageObject e sock msg =
     (if typeof_string msg then
        Some (JObj [(''id'', JStr (''tmp_'' @ toString36 (now_ms e))),
                    (''senderId'', JStr sock),
                    (''text'', msg),
                    (''createdAt'', JStr (now_iso e))])
      else if nullish msg then None
      else
        Some (JObj [(''id'', js_or (get msg ''id'') (JStr (''tmp_'' @ toString36 (now_ms e)))),
                    (''conversationId'', get msg ''conversationId''),
                    (''senderId'', js_or (get msg ''senderId'') (JStr sock)),
                    (''senderName'', get msg ''senderName''),
                    (''text'', js_coalesce (get msg ''text'') (js_coalesce (get msg ''message'') (JStr ''''))),
                    (''createdAt'', js_or (get msg ''createdAt'') (JStr (now_iso e)))]))"

text \<open>The fanout branch and the publish of the \<open>event:message\<close> handler.\<close>

definition fanout :: "server \<Rightarrow> jsval \<Rightarrow> effect list" where
  "fanout st m =
     (if truthy (get m ''conversationId'')
      then io_to_emit st (get m ''conversationId'') ''message'' m
      else io_emit st ''message'' m)"

definition publish :: "runtime \<Rightarrow> env \<Rightarrow> server \<Rightarrow> jsval \<Rightarrow> effect list" where
  "publish rt e st m =
     (if pub st then
        (if publish_ok e then [Publish ''Messages'' (JSON_stringify rt m)]
         else [Console LogWarn ''[redis pub] publish failed''])
      else [])"

definition on_event_message :: "runtime \<Rightarrow> env \<Rightarrow> server \<Rightarrow> sid \<Rightarrow> jsval \<Rightarrow> effect list" where
  "on_event_message rt e st sock msg =
     (case messageObject e sock msg of
        None \<Rightarrow> [Console LogError ''Error handling event:message'']
      | Some m \<Rightarrow>
          Console LogInfo ''Received event:message:'' # fanout st m @ publish rt e st m)"

text \<open>The subscription handler registered in the constructor.\<close>

definition sub_on_message :: "runtime \<Rightarrow> server \<Rightarrow> string \<Rightarrow> string \<Rightarrow> effect list" where
  "sub_on_message rt st channel message =
     (if channel = ''Messages'' then
        (case JSON_parse rt message of
           Some parsed \<Rightarrow> io_emit st ''message'' parsed
         | None \<Rightarrow> [Console LogWarn ''[redis sub] invalid JSON on Messages channel''])
      else [])"

text \<open>The broker hands a payload to an instance: the handler exists only where \<open>sub\<close> does.\<close>

definition broker_deliver :: "runtime \<Rightarrow> server \<Rightarrow> string \<Rightarrow> string \<Rightarrow> effect list" where
  "broker_deliver rt st channel message =
     (if sub st then sub_on_message rt st channel message else [])"

definition on_disconnect :: "server \<Rightarrow> sid \<Rightarrow> server \<times> effect list" where
  "on_disconnect st sock =
     (st\<lparr>conns := filter (\<lambda>s. s \<noteq> sock) (conns st), rooms := (rooms st)(sock := {})\<rparr>,
      [Console LogInfo (''Socket disconnected '' @ sock)])"

text \<open>
  The listeners of one socket, by event name; an event without a listener does nothing.
\<close>

definition on_socket_event ::
  "runtime \<Rightarrow> env \<Rightarrow> server \<Rightarrow> sid \<Rightarrow> string \<Rightarrow> jsval \<Rightarrow> server \<times> effect list" where
  "on_socket_event rt e st sock ev p =
     (if ev = ''join_room'' then join_room st sock p
      else if ev = ''leave_room'' then leave_room st sock p
      else if ev = ''event:message'' then (st, on_event_message rt e st sock p)
      else if ev = ''disconnect'' then on_disconnect st sock
      else if ev = ''error'' then (st, [Console LogError ''Socket error''])
      else (st, []))"

text \<open>
  The connections of the instance that an effect list delivers an event to, and the payloads
  it publishes on a topic.
\<close>

definition delivered_to :: "string \<Rightarrow> effect list \<Rightarrow> sid list" where
  "delivered_to ev effs = concat (map (\<lambda>x. case x of Emit s ev' v \<Rightarrow> (if ev' = ev then [s] else []) | _ \<Rightarrow> []) effs)"

definition published_on :: "string \<Rightarrow> effect list \<Rightarrow> string list" where
  "published_on topic effs = concat (map (\<lambda>x. case x of Publish t p \<Rightarrow> (if t = topic then [p] else []) | _ \<Rightarrow> []) effs)"

text \<open>
  Several instances on one broker. What instance \<open>i\<close> does is followed by what the packets
  of its adapter make every other instance do; a payload on the topic is handed to each
  instance; a submit on instance \<open>i\<close> is followed by the relay of what it published.
\<close>

definition others :: "nat \<Rightarrow> server list \<Rightarrow> server list" where
  "others i insts = take i insts @ drop (Suc i) insts"

definition spread :: "server list \<Rightarrow> nat \<Rightarrow> effect list \<Rightarrow> effect list" where
  "spread insts i effs =
     effs @ concat (map (\<lambda>st. concat (map (adapter_receive st) effs)) (others i insts))"

definition relay_all :: "runtime \<Rightarrow> server list \<Rightarrow> string \<Rightarrow> effect list" where
  "relay_all rt insts message =
     concat (map (\<lambda>i. spread insts i (broker_deliver rt (insts ! i) ''Messages'' message))
                 [0..<length insts])"

definition submit_run ::
  "runtime \<Rightarrow> env \<Rightarrow> server list \<Rightarrow> nat \<Rightarrow> sid \<Rightarrow> jsval \<Rightarrow> effect list" where
  "submit_run rt e insts i sock msg =
     (let effs = on_event_message rt e (insts ! i) sock msg
      in spread insts i effs @
         concat (map (relay_all rt insts) (published_on ''Messages'' effs)))"

text \<open>The events an effect list delivers, with connection and payload.\<close>

definition emitted :: "effect list \<Rightarrow> (sid \<times> string \<times> jsval) list" where
  "emitted effs = concat (map (\<lambda>x. case x of Emit s ev v \<Rightarrow> [(s, ev, v)] | _ \<Rightarrow> []) effs)"

section \<open>The client (context/SocketProvider.tsx, app/page.tsx)\<close>

text \<open>
  The text of a message is a JavaScript string: a list of UTF-16 code units. Identifiers,
  names and time stamps are kept as plain strings; nothing inspects their characters.
\<close>

type_synonym utf16 = "16 word list"

definition code_units :: "string \<Rightarrow> utf16" where
  "code_units s = map (\<lambda>c. of_nat (of_char c)) s"

record Message =
  id_m :: string
  conversationId :: "string option"
  senderId :: string
  senderName :: "string option"
  text_m :: utf16
  createdAt :: string

text \<open>
  The provider's state: \<open>socket_connected\<close> is \<open>socket && socket.connected\<close>, the other
  fields are the React state cells.
\<close>

record provider =
  socket_connected :: bool
  connected :: bool
  messages :: "Message list"
  typingUsers :: "string list"
  onlineUsers :: "string set"
  currentUserId :: string
  currentUserName :: string

datatype client_payload = PMessage Message | PUser string string

datatype client_effect =
    SocketEmit string client_payload
  | Warn string

text \<open>\<open>Date.now()\<close>, \<open>new Date().toISOString()\<close> and \<open>Math.random().toString(36)\<close> in the browser.\<close>

record client_env =
  c_now_ms :: nat
  c_now_iso :: string
  random36 :: string

definition setTyping :: "provider \<Rightarrow> bool \<Rightarrow> client_effect list" where
  "setTyping p isTyping =
     (if \<not> socket_connected p then []
      else if isTyping then [SocketEmit ''user:typing'' (PUser (currentUserId p) (currentUserName p))]
      else [SocketEmit ''user:stop-typing'' (PUser (currentUserId p) (currentUserName p))])"

definition tempId :: "client_env \<Rightarrow> string" where
  "tempId ce = ''tmp_'' @ toString36 (c_now_ms ce) @ ''_'' @ take 3 (drop 2 (random36 ce))"

definition sendMessage :: "client_env \<Rightarrow> provider \<Rightarrow> utf16 \<Rightarrow> provider \<times> client_effect list" where
  "sendMessage ce p txt =
     (if \<not> socket_connected p then (p, [Warn ''Socket not connected, cannot send message''])
      else
        (let msg = \<lparr>id_m = tempId ce, conversationId = None, senderId = currentUserId p,
                    senderName = Some (currentUserName p), text_m = txt,
                    createdAt = c_now_iso ce\<rparr>
         in (p\<lparr>messages := messages p @ [msg]\<rparr>, [SocketEmit ''event:message'' (PMessage msg)])))"

text \<open>The state update of \<open>onMessageReceived\<close>: replace by id, else append.\<close>

definition onMessageReceived :: "Message \<Rightarrow> Message list \<Rightarrow> Message list" where
  "onMessageReceived msg prev =
     (if list_ex (\<lambda>m. id_m m = id_m msg) prev
      then map (\<lambda>m. if id_m m = id_m msg then msg else m) prev
      else prev @ [msg])"

text \<open>
  The listeners the provider registers on its socket for connection, message, typing and
  snapshot events. Both \<open>user:typing\<close> listeners run on each event, and both
  \<open>user:stop-typing\<close> listeners.
\<close>

datatype socket_event =
    Connect
  | ConnectError
  | Disconnect
  | MessageEv Message
  | UserTyping string string
  | UserStopTyping string string
  | UsersOnline "string list"

definition typing_add :: "string \<Rightarrow> string list \<Rightarrow> string list" where
  "typing_add username prev = (if List.member prev username then prev else prev @ [username])"

definition typing_remove :: "string \<Rightarrow> string list \<Rightarrow> string list" where
  "typing_remove username prev = filter (\<lambda>name. name \<noteq> username) prev"

fun on_socket :: "provider \<Rightarrow> socket_event \<Rightarrow> provider \<times> client_effect list" where
  "on_socket p Connect =
     (p\<lparr>socket_connected := True, connected := True\<rparr>,
      [SocketEmit ''user:join'' (PUser (currentUserId p) (currentUserName p))])"
| "on_socket p ConnectError = (p\<lparr>socket_connected := False, connected := False\<rparr>, [])"
| "on_socket p Disconnect = (p\<lparr>socket_connected := False, connected := False\<rparr>, [])"
| "on_socket p (MessageEv msg) = (p\<lparr>messages := onMessageReceived msg (messages p)\<rparr>, [])"
| "on_socket p (UserTyping userId username) =
     (p\<lparr>typingUsers := typing_add username (typing_add username (typingUsers p))\<rparr>, [])"
| "on_socket p (UserStopTyping userId username) =
     (p\<lparr>typingUsers := typing_remove username (typing_remove username (typingUsers p))\<rparr>, [])"
| "on_socket p (UsersOnline users) = (p\<lparr>onlineUsers := set users\<rparr>, [])"

fun run_socket :: "provider \<Rightarrow> socket_event list \<Rightarrow> provider" where
  "run_socket p [] = p"
| "run_socket p (ev # evs) = run_socket (fst (on_socket p ev)) evs"

text \<open>
  \<open>String.prototype.trim\<close> strips white space and line terminators from both ends: TAB, LF,
  VT, FF, CR, SPACE, NBSP, U+1680, U+2000 to U+200A, U+2028, U+2029, U+202F, U+205F, U+3000
  and U+FEFF.
\<close>

definition isWhiteSpace :: "16 word \<Rightarrow> bool" where
  "isWhiteSpace c =
     (unat c \<in> {9, 10, 11, 12, 13, 32, 160, 5760, 8232, 8233, 8239, 8287, 12288, 65279} \<or>
      (8192 \<le> unat c \<and> unat c \<le> 8202))"

definition trim :: "utf16 \<Rightarrow> utf16" where
  "trim s = rev (dropWhile isWhiteSpace (rev (dropWhile isWhiteSpace s)))"

text \<open>
  The page: the provider's context, the input field, the chosen name, the name prompt, and
  the \<open>chat_user_name\<close> entry of local storage.
\<close>

record page =
  ctx :: provider
  message :: utf16
  username :: string
  showNamePrompt :: bool
  chat_user_name :: "string option"

definition handleSend :: "client_env \<Rightarrow> page \<Rightarrow> page \<times> client_effect list" where
  "handleSend ce pg =
     (if trim (message pg) = [] then (pg, [])
      else if \<not> connected (ctx pg) then (pg, [Warn ''Cannot send message: socket is not connected''])
      else if username pg = [] \<and> (chat_user_name pg = None \<or> chat_user_name pg = Some [])
        then (pg\<lparr>showNamePrompt := True\<rparr>, [])
      else
        (let r = sendMessage ce (ctx pg) (trim (message pg))
         in (pg\<lparr>ctx := fst r, message := []\<rparr>, snd r)))"

section \<open>Vocabulary of the properties\<close>

text \<open>
  A field that \<open>MessageShape\<close> declares as a string, in a payload that may leave it out:
  absent, \<open>null\<close>, or a string.
\<close>

definition optional_string :: "jsval \<Rightarrow> bool" where
  "optional_string v = (nullish v \<or> typeof_string v)"

text \<open>What a client handler sends on its socket.\<close>

definition socket_emits :: "client_effect list \<Rightarrow> (string \<times> client_payload) list" where
  "socket_emits effs = concat (map (\<lambda>x. case x of SocketEmit ev p \<Rightarrow> [(ev, p)] | Warn w \<Rightarrow> []) effs)"

text \<open>An incoming \<open>user:stop-typing\<close> event that names the user \<open>u\<close>.\<close>

fun is_stop_for :: "string \<Rightarrow> socket_event \<Rightarrow> bool" where
  "is_stop_for u (UserStopTyping uid name) = (name = u)"
| "is_stop_for u ev = False"

section \<open>Example configurations\<close>

definition example_env :: env where
  "example_env = \<lparr>now_ms = 1700000000000, now_iso = ''2023-11-14T22:13:20.000Z'', publish_ok = True\<rparr>"

text \<open>
  A codec that carries one value: it writes \<open>v\<close> as the text \<open>wire\<close> and reads that text back
  as \<open>v\<close>; no other text parses.
\<close>

definition wire_runtime :: "jsval \<Rightarrow> runtime" where
  "wire_runtime v =
     \<lparr>JSON_parse = (\<lambda>s. if s = ''wire'' then Some v else None), JSON_stringify = (\<lambda>x. ''wire'')\<rparr>"

definition room_X :: jsval where
  "room_X = JObj [(''roomId'', JStr ''X'')]"

text \<open>
  An instance with Redis enabled and three connections; \<open>A\<close> and \<open>B\<close> have joined room
  \<open>X\<close>, \<open>C\<close> has not.
\<close>

definition three_sockets :: server where
  "three_sockets =
     fst (join_room (fst (join_room
       (fst (on_connection (fst (on_connection (fst (on_connection
          (fst (SocketService True Ready)) ''A'')) ''B'')) ''C''))
       ''A'' room_X)) ''B'' room_X)"

text \<open>A draft addressed to room \<open>X\<close>, and the message object the handler builds from it.\<close>

definition room_draft :: jsval where
  "room_draft =
     JObj [(''id'', JStr ''tmp_1''), (''conversationId'', JStr ''X''), (''senderId'', JStr ''u1''),
           (''text'', JStr ''hi''), (''createdAt'', JStr ''2023-11-14T22:13:20.000Z'')]"

definition room_message :: jsval where
  "room_message =
     JObj [(''id'', JStr ''tmp_1''), (''conversationId'', JStr ''X''), (''senderId'', JStr ''u1''),
           (''senderName'', JUndefined), (''text'', JStr ''hi''),
           (''createdAt'', JStr ''2023-11-14T22:13:20.000Z'')]"

definition example_client_env :: client_env where
  "example_client_env = \<lparr>c_now_ms = 1700000000000, c_now_iso = ''2023-11-14T22:13:20.000Z'', random36 = ''0.4fzyo82m''\<rparr>"

definition example_provider :: provider where
  "example_provider =
     \<lparr>socket_connected = True, connected = True, messages = [], typingUsers = [],
      onlineUsers = {}, currentUserId = ''u1'', currentUserName = ''alice''\<rparr>"

definition example_page :: "utf16 \<Rightarrow> provider \<Rightarrow> page" where
  "example_page input p =
     \<lparr>ctx = p, message = input, username = ''alice'', showNamePrompt = False,
      chat_user_name = Some ''alice''\<rparr>"

section \<open>Properties of the socket service\<close>

lemma messageObject_string:
  "messageObject e sock (JStr s) =
     Some (JObj [(''id'', JStr (''tmp_'' @ toString36 (now_ms e))), (''senderId'', JStr sock),
                 (''text'', JStr s), (''createdAt'', JStr (now_iso e))])"
  by (simp add: messageObject_def)

lemma messageObject_object:
  "messageObject e sock (JObj kvs) =
     Some (JObj [(''id'', js_or (get (JObj kvs) ''id'') (JStr (''tmp_'' @ toString36 (now_ms e)))),
                 (''conversationId'', get (JObj kvs) ''conversationId''),
                 (''senderId'', js_or (get (JObj kvs) ''senderId'') (JStr sock)),
                 (''senderName'', get (JObj kvs) ''senderName''),
                 (''text'', js_coalesce (get (JObj kvs) ''text'') (js_coalesce (get (JObj kvs) ''message'') (JStr ''''))),
                 (''createdAt'', js_or (get (JObj kvs) ''createdAt'') (JStr (now_iso e)))])"
  by (simp add: messageObject_def)

lemma get_string_object:
  "get (JObj [(''id'', a), (''senderId'', c), (''text'', t), (''createdAt'', f)]) ''id'' = a"
  "get (JObj [(''id'', a), (''senderId'', c), (''text'', t), (''createdAt'', f)]) ''senderId'' = c"
  "get (JObj [(''id'', a), (''senderId'', c), (''text'', t), (''createdAt'', f)]) ''text'' = t"
  "get (JObj [(''id'', a), (''senderId'', c), (''text'', t), (''createdAt'', f)]) ''createdAt'' = f"
  by simp_all

lemma get_draft_object:
  "get (JObj [(''id'', a), (''conversationId'', b), (''senderId'', c), (''senderName'', d),
              (''text'', t), (''createdAt'', f)]) ''id'' = a"
  "get (JObj [(''id'', a), (''conversationId'', b), (''senderId'', c), (''senderName'', d),
              (''text'', t), (''createdAt'', f)]) ''conversationId'' = b"
  "get (JObj [(''id'', a), (''conversationId'', b), (''senderId'', c), (''senderName'', d),
              (''text'', t), (''createdAt'', f)]) ''senderId'' = c"
  "get (JObj [(''id'', a), (''conversationId'', b), (''senderId'', c), (''senderName'', d),
              (''text'', t), (''createdAt'', f)]) ''senderName'' = d"
  "get (JObj [(''id'', a), (''conversationId'', b), (''senderId'', c), (''senderName'', d),
              (''text'', t), (''createdAt'', f)]) ''text'' = t"
  "get (JObj [(''id'', a), (''conversationId'', b), (''senderId'', c), (''senderName'', d),
              (''text'', t), (''createdAt'', f)]) ''createdAt'' = f"
  by simp_all

lemma typeof_string_not_nullish: "typeof_string v \<Longrightarrow> \<not> nullish v"
  by (cases v) simp_all

lemma toString36_example: "toString36 1700000000000 = ''loyw3v28''"
  by (simp add: toString36.simps digit36_def)

subsection \<open>Effects of the handlers\<close>

lemma delivered_to_Nil [simp]: "delivered_to ev [] = []"
  by (simp add: delivered_to_def)

lemma delivered_to_append [simp]:
  "delivered_to ev (xs @ ys) = delivered_to ev xs @ delivered_to ev ys"
  by (simp add: delivered_to_def)

lemma delivered_to_Cons [simp]:
  "delivered_to ev (Emit s ev' v # xs) = (if ev' = ev then s # delivered_to ev xs else delivered_to ev xs)"
  "delivered_to ev (Publish t p # xs) = delivered_to ev xs"
  "delivered_to ev (AdapterSend rs ev' v # xs) = delivered_to ev xs"
  "delivered_to ev (Console l c # xs) = delivered_to ev xs"
  by (simp_all add: delivered_to_def)

lemma published_on_Nil [simp]: "published_on t []  = []"
  by (simp add: published_on_def)

lemma published_on_append [simp]:
  "published_on t (xs @ ys) = published_on t xs @ published_on t ys"
  by (simp add: published_on_def)

lemma published_on_Cons [simp]:
  "published_on t (Emit s ev v # xs) = published_on t xs"
  "published_on t (Publish t' p # xs) = (if t' = t then p # published_on t xs else published_on t xs)"
  "published_on t (AdapterSend rs ev v # xs) = published_on t xs"
  "published_on t (Console l c # xs) = published_on t xs"
  by (simp_all add: published_on_def)

lemma published_on_concat:
  "published_on t (concat xss) = concat (map (published_on t) xss)"
  by (induction xss) simp_all

lemma emitted_Nil [simp]: "emitted [] = []"
  by (simp add: emitted_def)

lemma emitted_append [simp]: "emitted (xs @ ys) = emitted xs @ emitted ys"
  by (simp add: emitted_def)

lemma emitted_Cons [simp]:
  "emitted (Emit s ev v # xs) = (s, ev, v) # emitted xs"
  "emitted (Publish t p # xs) = emitted xs"
  "emitted (AdapterSend rs ev v # xs) = emitted xs"
  "emitted (Console l c # xs) = emitted xs"
  by (simp_all add: emitted_def)

lemma emitted_emits: "emitted (map (\<lambda>s. Emit s ev v) ss) = map (\<lambda>s. (s, ev, v)) ss"
  by (induction ss) simp_all

lemma delivered_to_emits:
  "delivered_to ev (map (\<lambda>s. Emit s ev' v) ss) = (if ev' = ev then ss else [])"
  by (induction ss) auto

lemma published_on_emits: "published_on t (map (\<lambda>s. Emit s ev v) ss) = []"
  by (induction ss) auto

lemma delivered_to_broadcast:
  "delivered_to ev (broadcast st rs ev' v) =
     (if ev' = ev then filter (\<lambda>s. rs = [] \<or> (\<exists>r \<in> set rs. r \<in> rooms st s)) (conns st) else [])"
  by (simp add: broadcast_def local_broadcast_def delivered_to_emits)

lemma published_on_local_broadcast: "published_on t (local_broadcast st rs ev v) = []"
  by (simp add: local_broadcast_def published_on_emits)

lemma published_on_broadcast: "published_on t (broadcast st rs ev v) = []"
  by (simp add: broadcast_def published_on_local_broadcast)

lemma io_emit_eq:
  "io_emit st ev v =
     map (\<lambda>s. Emit s ev v) (conns st) @ (if adapter st then [AdapterSend [] ev v] else [])"
  by (simp add: io_emit_def broadcast_def local_broadcast_def)

lemma delivered_to_io_emit:
  "delivered_to ev (io_emit st ev' v) = (if ev' = ev then conns st else [])"
  by (simp add: io_emit_def delivered_to_broadcast)

lemma delivered_to_io_to_emit:
  "delivered_to ev (io_to_emit st room ev' v) =
     (if ev' = ev
      then filter (\<lambda>s. room_list room = [] \<or> (\<exists>r \<in> set (room_list room). r \<in> rooms st s)) (conns st)
      else [])"
  by (simp add: io_to_emit_def delivered_to_broadcast)

lemma delivered_to_fanout:
  "delivered_to ev (fanout st m) =
     (if ev = ''message'' then
        (if truthy (get m ''conversationId'')
         then filter (\<lambda>s. room_list (get m ''conversationId'') = [] \<or>
                 (\<exists>r \<in> set (room_list (get m ''conversationId'')). r \<in> rooms st s)) (conns st)
         else conns st)
      else [])"
  by (auto simp: fanout_def delivered_to_io_emit delivered_to_io_to_emit)

lemma published_on_fanout: "published_on t (fanout st m) = []"
  by (simp add: fanout_def io_emit_def io_to_emit_def published_on_broadcast)

lemma delivered_to_publish: "delivered_to ev (publish rt e st m) = []"
  by (simp add: publish_def)

lemma published_on_publish:
  "published_on ''Messages'' (publish rt e st m) =
     (if pub st \<and> publish_ok e then [JSON_stringify rt m] else [])"
  by (simp add: publish_def)

lemma published_on_sub_on_message: "published_on t (sub_on_message rt st channel payload) = []"
  by (simp add: sub_on_message_def io_emit_def published_on_broadcast split: option.split)

lemma published_on_broker_deliver: "published_on t (broker_deliver rt st channel payload) = []"
  by (simp add: broker_deliver_def published_on_sub_on_message)

lemma published_on_adapter_receive: "published_on t (adapter_receive st x) = []"
  by (cases x) (simp_all add: published_on_local_broadcast)

lemma published_on_adapter_receive_all:
  "published_on t (concat (map (adapter_receive st) effs)) = []"
  by (induction effs) (simp_all add: published_on_adapter_receive)

lemma published_on_spread: "published_on t (spread insts i effs) = published_on t effs"
proof -
  have "published_on t (concat (map (\<lambda>st. concat (map (adapter_receive st) effs)) xs)) = []" for xs
    by (induction xs) (simp_all add: published_on_adapter_receive_all)
  then show ?thesis by (simp add: spread_def)
qed

lemma published_on_relay_all: "published_on t (relay_all rt insts payload) = []"
proof -
  have "published_on t (concat (map (\<lambda>i. spread insts i (broker_deliver rt (insts ! i) ''Messages'' payload)) is)) = []"
    for "is"
    by (induction "is") (simp_all add: published_on_spread published_on_broker_deliver)
  then show ?thesis by (simp add: relay_all_def)
qed

lemma published_on_relay_each:
  "published_on t (concat (map (relay_all rt insts) ps)) = []"
  by (induction ps) (simp_all add: published_on_relay_all)

lemma delivered_to_on_event_message:
  "messageObject e sock msg = Some m \<Longrightarrow>
   delivered_to ev (on_event_message rt e st sock msg) = delivered_to ev (fanout st m)"
  by (simp add: on_event_message_def delivered_to_publish)

lemma published_on_on_event_message:
  "messageObject e sock msg = Some m \<Longrightarrow>
   published_on ''Messages'' (on_event_message rt e st sock msg) =
     (if pub st \<and> publish_ok e then [JSON_stringify rt m] else [])"
  by (simp add: on_event_message_def published_on_fanout published_on_publish)

text \<open>
  The local fanout of a message that names a room reaches members of that room only.
\<close>

lemma local_fanout_room_scoped:
  assumes "messageObject e sock msg = Some m" and "get m ''conversationId'' = JStr r"
    and "r \<noteq> []"
    and "s \<in> set (delivered_to ev (on_event_message rt e st sock msg))"
  shows "JStr r \<in> rooms st s"
  using assms by (simp add: delivered_to_on_event_message delivered_to_fanout split: if_splits)

subsection \<open>The example instance\<close>

lemma three_sockets_conns: "conns three_sockets = [''A'', ''B'', ''C'']"
  by (simp add: three_sockets_def join_room_def on_connection_def SocketService_def room_X_def)

lemma three_sockets_pub: "pub three_sockets" "sub three_sockets" "adapter three_sockets"
  by (simp_all add: three_sockets_def join_room_def on_connection_def SocketService_def room_X_def)

lemma three_sockets_rooms:
  "rooms three_sockets ''A'' = {JStr ''X'', JStr ''A''}"
  "rooms three_sockets ''B'' = {JStr ''X'', JStr ''B''}"
  "rooms three_sockets ''C'' = {JStr ''C''}"
  by (simp_all add: three_sockets_def join_room_def on_connection_def SocketService_def room_X_def)

lemma payloads_of_on_event_message:
  assumes "messageObject e sock msg = Some m"
  shows "Emit s ev v \<in> set (on_event_message rt e st sock msg) \<Longrightarrow> ev = ''message'' \<and> v = m"
    and "AdapterSend rs ev v \<in> set (on_event_message rt e st sock msg) \<Longrightarrow> ev = ''message'' \<and> v = m"
  using assms
  by (auto simp: on_event_message_def fanout_def io_emit_def io_to_emit_def broadcast_def
      local_broadcast_def publish_def split: if_splits)

section \<open>Claims\<close>

text \<open>
  C2. For every draft (an object payload) submitted with a client-chosen temporary id \<open>T\<close>:
  when \<open>T\<close> is present and non-empty, the canonical message the server builds has id \<open>T\<close>;
  when the id is absent or empty, the server synthesizes one (\<open>tmp_\<close> followed by the clock
  in base 36). Every event the handler emits, and every packet its adapter sends to the other
  instances, carries that canonical message.
\<close>

theorem canonical_id_from_draft:
  "\<exists>m. messageObject e sock (JObj kvs) = Some m \<and>
     (\<forall>T. get (JObj kvs) ''id'' = JStr T \<and> T \<noteq> [] \<longrightarrow> get m ''id'' = JStr T) \<and>
     (get (JObj kvs) ''id'' = JUndefined \<or> get (JObj kvs) ''id'' = JStr [] \<longrightarrow>
        get m ''id'' = JStr (''tmp_'' @ toString36 (now_ms e))) \<and>
     (\<forall>s ev v. Emit s ev v \<in> set (on_event_message rt e st sock (JObj kvs)) \<longrightarrow> v = m) \<and>
     (\<forall>rs ev v. AdapterSend rs ev v \<in> set (on_event_message rt e st sock (JObj kvs)) \<longrightarrow> v = m)"
proof -
  let ?m = "JObj [(''id'', js_or (get (JObj kvs) ''id'') (JStr (''tmp_'' @ toString36 (now_ms e)))),
                 (''conversationId'', get (JObj kvs) ''conversationId''),
                 (''senderId'', js_or (get (JObj kvs) ''senderId'') (JStr sock)),
                 (''senderName'', get (JObj kvs) ''senderName''),
                 (''text'', js_coalesce (get (JObj kvs) ''text'') (js_coalesce (get (JObj kvs) ''message'') (JStr ''''))),
                 (''createdAt'', js_or (get (JObj kvs) ''createdAt'') (JStr (now_iso e)))]"
  have m: "messageObject e sock (JObj kvs) = Some ?m"
    by (rule messageObject_object)
  have id: "get ?m ''id'' = js_or (get (JObj kvs) ''id'') (JStr (''tmp_'' @ toString36 (now_ms e)))"
    by (rule get_draft_object)
  have "\<forall>T. get (JObj kvs) ''id'' = JStr T \<and> T \<noteq> [] \<longrightarrow> get ?m ''id'' = JStr T"
    unfolding id by (simp add: js_or_def)
  moreover have "get (JObj kvs) ''id'' = JUndefined \<or> get (JObj kvs) ''id'' = JStr [] \<longrightarrow>
        get ?m ''id'' = JStr (''tmp_'' @ toString36 (now_ms e))"
    unfolding id by (auto simp: js_or_def)
  moreover have "\<forall>s ev v. Emit s ev v \<in> set (on_event_message rt e st sock (JObj kvs)) \<longrightarrow> v = ?m"
    using payloads_of_on_event_message(1) [OF m] by blast
  moreover have "\<forall>rs ev v. AdapterSend rs ev v \<in> set (on_event_message rt e st sock (JObj kvs)) \<longrightarrow> v = ?m"
    using payloads_of_on_event_message(2) [OF m] by blast
  ultimately show ?thesis using m by blast
qed

theorem canonical_id_from_draft_witness:
  "on_event_message (wire_runtime JNull) example_env three_sockets ''A''
       (JObj [(''id'', JStr ''tmp_1''), (''text'', JStr ''hi'')]) =
     [Console LogInfo ''Received event:message:'',
      Emit ''A'' ''message'' (JObj [(''id'', JStr ''tmp_1''), (''conversationId'', JUndefined),
         (''senderId'', JStr ''A''), (''senderName'', JUndefined), (''text'', JStr ''hi''),
         (''createdAt'', JStr ''2023-11-14T22:13:20.000Z'')]),
      Emit ''B'' ''message'' (JObj [(''id'', JStr ''tmp_1''), (''conversationId'', JUndefined),
         (''senderId'', JStr ''A''), (''senderName'', JUndefined), (''text'', JStr ''hi''),
         (''createdAt'', JStr ''2023-11-14T22:13:20.000Z'')]),
      Emit ''C'' ''message'' (JObj [(''id'', JStr ''tmp_1''), (''conversationId'', JUndefined),
         (''senderId'', JStr ''A''), (''senderName'', JUndefined), (''text'', JStr ''hi''),
         (''createdAt'', JStr ''2023-11-14T22:13:20.000Z'')]),
      AdapterSend [] ''message'' (JObj [(''id'', JStr ''tmp_1''), (''conversationId'', JUndefined),
         (''senderId'', JStr ''A''), (''senderName'', JUndefined), (''text'', JStr ''hi''),
         (''createdAt'', JStr ''2023-11-14T22:13:20.000Z'')]),
      Publish ''Messages'' ''wire''] \<and>
   (\<exists>m. messageObject example_env ''A'' (JObj [(''text'', JStr ''hi'')]) = Some m \<and>
        get m ''id'' = JStr ''tmp_loyw3v28'')"
  using canonical_id_from_draft [of example_env "''A''" "[(''id'', JStr ''tmp_1''), (''text'', JStr ''hi'')]"
      "wire_runtime JNull" three_sockets]
    canonical_id_from_draft [of example_env "''A''" "[(''text'', JStr ''hi'')]" "wire_runtime JNull" three_sockets]
  by (simp add: messageObject_def on_event_message_def fanout_def publish_def io_emit_eq js_or_def
      js_coalesce_def three_sockets_conns three_sockets_pub wire_runtime_def example_env_def
      toString36_example)

text \<open>
  C5. A payload that arrives through the relay subscription is delivered to the local
  connections, each receiving the parsed message, and is not published to the relay topic
  \<open>Messages\<close> again, on any number of instances and with what the adapter's packets make
  the other instances do counted in. Only the handler of a local submit publishes to the
  topic, once: the whole run of a submit on one instance of a cluster, with the relay of what
  it published to every instance, leaves the message on the topic exactly once.
\<close>

theorem relay_never_republishes:
  "published_on ''Messages'' (relay_all rt insts payload) = [] \<and>
   (sub st \<and> JSON_parse rt payload = Some parsed \<longrightarrow>
      emitted (broker_deliver rt st ''Messages'' payload) =
        map (\<lambda>s. (s, ''message'', parsed)) (conns st) \<and>
      published_on ''Messages'' (broker_deliver rt st ''Messages'' payload) = []) \<and>
   (i < length insts \<and> pub (insts ! i) \<and> publish_ok e \<and> messageObject e sock msg = Some m \<longrightarrow>
      published_on ''Messages'' (submit_run rt e insts i sock msg) = [JSON_stringify rt m])"
proof (intro conjI impI)
  show "published_on ''Messages'' (relay_all rt insts payload) = []"
    by (rule published_on_relay_all)
next
  assume "sub st \<and> JSON_parse rt payload = Some parsed"
  then show "emitted (broker_deliver rt st ''Messages'' payload) =
        map (\<lambda>s. (s, ''message'', parsed)) (conns st)"
    by (simp add: broker_deliver_def sub_on_message_def io_emit_eq emitted_emits)
  show "published_on ''Messages'' (broker_deliver rt st ''Messages'' payload) = []"
    by (rule published_on_broker_deliver)
next
  assume a: "i < length insts \<and> pub (insts ! i) \<and> publish_ok e \<and> messageObject e sock msg = Some m"
  then have p: "published_on ''Messages'' (on_event_message rt e (insts ! i) sock msg) = [JSON_stringify rt m]"
    by (simp add: published_on_on_event_message)
  show "published_on ''Messages'' (submit_run rt e insts i sock msg) = [JSON_stringify rt m]"
    by (simp add: submit_run_def Let_def published_on_spread p published_on_relay_all)
qed

theorem relay_never_republishes_witness:
  "published_on ''Messages'' (relay_all (wire_runtime (JStr ''hi'')) [three_sockets, three_sockets] ''wire'') = [] \<and>
   emitted (broker_deliver (wire_runtime (JStr ''hi'')) three_sockets ''Messages'' ''wire'') =
     [(''A'', ''message'', JStr ''hi''), (''B'', ''message'', JStr ''hi''), (''C'', ''message'', JStr ''hi'')] \<and>
   published_on ''Messages''
     (submit_run (wire_runtime (JStr ''hi'')) example_env [three_sockets, three_sockets] 0 ''A''
        (JObj [(''text'', JStr ''hi'')])) = [''wire'']"
  using relay_never_republishes [of "wire_runtime (JStr ''hi'')" "[three_sockets, three_sockets]"
      "''wire''" three_sockets "JStr ''hi''" 0 example_env "''A''" "JObj [(''text'', JStr ''hi'')]"
      "JObj [(''id'', JStr ''tmp_loyw3v28''), (''conversationId'', JUndefined),
                 (''senderId'', JStr ''A''), (''senderName'', JUndefined),
                 (''text'', JStr ''hi''), (''createdAt'', JStr ''2023-11-14T22:13:20.000Z'')]"]
  by (simp add: three_sockets_pub three_sockets_conns wire_runtime_def example_env_def messageObject_def
      js_or_def js_coalesce_def toString36_example)

text \<open>
  C8. A payload from the relay subscription that fails to parse is dropped with a logged
  warning: the handler returns, delivers nothing to any connection and publishes nothing.
\<close>

theorem malformed_relay_payload_dropped:
  "JSON_parse rt payload = None \<Longrightarrow>
     sub_on_message rt st ''Messages'' payload =
       [Console LogWarn ''[redis sub] invalid JSON on Messages channel''] \<and>
     delivered_to ev (broker_deliver rt st channel payload) = [] \<and>
     published_on topic (broker_deliver rt st channel payload) = []"
  by (simp add: sub_on_message_def broker_deliver_def)

theorem malformed_relay_payload_dropped_witness:
  "JSON_parse (wire_runtime (JStr ''hi'')) ''{bad'' = None \<and>
   broker_deliver (wire_runtime (JStr ''hi'')) three_sockets ''Messages'' ''{bad'' =
     [Console LogWarn ''[redis sub] invalid JSON on Messages channel''] \<and>
   delivered_to ''message'' (broker_deliver (wire_runtime (JStr ''hi'')) three_sockets ''Messages'' ''{bad'') = []"
  using malformed_relay_payload_dropped [of "wire_runtime (JStr ''hi'')" "''{bad''" three_sockets
      "''message''" "''Messages''" "''Messages''"]
  by (simp add: wire_runtime_def broker_deliver_def three_sockets_pub)

lemma nullish_not_truthy: "nullish v \<Longrightarrow> \<not> truthy v"
  by (cases v) simp_all

lemma typeof_string_js_or:
  "optional_string a \<Longrightarrow> typeof_string b \<Longrightarrow> typeof_string (js_or a b)"
  by (cases a) (simp_all add: js_or_def optional_string_def)

lemma typeof_string_js_coalesce:
  "optional_string a \<Longrightarrow> typeof_string b \<Longrightarrow> typeof_string (js_coalesce a b)"
  by (cases a) (simp_all add: js_coalesce_def optional_string_def)

lemma js_or_falsy: "\<not> truthy a \<Longrightarrow> js_or a b = b"
  by (simp add: js_or_def)

text \<open>
  C10 as stated fails: the handler takes any payload. An object whose fields hold numbers and
  a boolean yields a message object with no string field among \<open>id\<close>, \<open>senderId\<close>,
  \<open>text\<close> and \<open>createdAt\<close>, and a \<open>null\<close> payload yields no message object at all.
\<close>

theorem messageObject_passes_non_strings:
  "messageObject example_env ''A''
      (JObj [(''id'', JNum 5), (''senderId'', JNum 7), (''text'', JNum 0), (''createdAt'', JBool True)]) =
     Some (JObj [(''id'', JNum 5), (''conversationId'', JUndefined), (''senderId'', JNum 7),
                 (''senderName'', JUndefined), (''text'', JNum 0), (''createdAt'', JBool True)]) \<and>
   \<not> typeof_string (JNum 5) \<and> \<not> typeof_string (JNum 7) \<and> \<not> typeof_string (JNum 0) \<and>
   \<not> typeof_string (JBool True) \<and>
   messageObject example_env ''A'' JNull = None"
  by (simp add: messageObject_def js_or_def js_coalesce_def)

text \<open>
  C10, amended. For every inbound \<open>event:message\<close> payload that is a bare string, or an
  object in which each of \<open>id\<close>, \<open>senderId\<close>, \<open>text\<close>, \<open>message\<close> and \<open>createdAt\<close> is
  absent, \<open>null\<close> or a string, the handler builds a message object whose \<open>id\<close>,
  \<open>senderId\<close>, \<open>text\<close> and \<open>createdAt\<close> are strings: a missing or empty id becomes the
  synthesized temporary id, a missing sender id the socket id, a missing text the
  \<open>message\<close> field if present and the empty string otherwise, a missing creation time the
  current ISO time. For a \<open>null\<close> or \<open>undefined\<close> payload no message object is built: the
  handler logs an error and emits nothing.
\<close>

theorem messageObject_fields_are_strings:
  "(\<exists>m. messageObject e sock (JStr s) = Some m \<and>
        get m ''id'' = JStr (''tmp_'' @ toString36 (now_ms e)) \<and>
        get m ''senderId'' = JStr sock \<and>
        get m ''text'' = JStr s \<and>
        get m ''createdAt'' = JStr (now_iso e)) \<and>
   (optional_string (get (JObj kvs) ''id'') \<and> optional_string (get (JObj kvs) ''senderId'') \<and>
    optional_string (get (JObj kvs) ''text'') \<and> optional_string (get (JObj kvs) ''message'') \<and>
    optional_string (get (JObj kvs) ''createdAt'') \<longrightarrow>
    (\<exists>m. messageObject e sock (JObj kvs) = Some m \<and>
        typeof_string (get m ''id'') \<and> typeof_string (get m ''senderId'') \<and>
        typeof_string (get m ''text'') \<and> typeof_string (get m ''createdAt'') \<and>
        (\<not> truthy (get (JObj kvs) ''id'') \<longrightarrow> get m ''id'' = JStr (''tmp_'' @ toString36 (now_ms e))) \<and>
        (\<not> truthy (get (JObj kvs) ''senderId'') \<longrightarrow> get m ''senderId'' = JStr sock) \<and>
        (nullish (get (JObj kvs) ''text'') \<longrightarrow>
           get m ''text'' = (if nullish (get (JObj kvs) ''message'') then JStr [] else get (JObj kvs) ''message'')) \<and>
        (\<not> nullish (get (JObj kvs) ''text'') \<longrightarrow> get m ''text'' = get (JObj kvs) ''text'') \<and>
        (\<not> truthy (get (JObj kvs) ''createdAt'') \<longrightarrow> get m ''createdAt'' = JStr (now_iso e)))) \<and>
   (nullish msg \<longrightarrow>
      messageObject e sock msg = None \<and>
      on_event_message rt e st sock msg = [Console LogError ''Error handling event:message''])"
proof (intro conjI impI)
  show "\<exists>m. messageObject e sock (JStr s) = Some m \<and>
        get m ''id'' = JStr (''tmp_'' @ toString36 (now_ms e)) \<and>
        get m ''senderId'' = JStr sock \<and>
        get m ''text'' = JStr s \<and>
        get m ''createdAt'' = JStr (now_iso e)"
    unfolding messageObject_string
    by (rule exI, rule conjI, rule refl) (simp only: get_string_object simp_thms)
next
  define d where "d = JObj kvs"
  assume "optional_string (get (JObj kvs) ''id'') \<and> optional_string (get (JObj kvs) ''senderId'') \<and>
    optional_string (get (JObj kvs) ''text'') \<and> optional_string (get (JObj kvs) ''message'') \<and>
    optional_string (get (JObj kvs) ''createdAt'')"
  then have ok: "optional_string (get d ''id'')" "optional_string (get d ''senderId'')"
    "optional_string (get d ''text'')" "optional_string (get d ''message'')"
    "optional_string (get d ''createdAt'')"
    by (simp_all add: d_def)
  have t: "typeof_string (js_coalesce (get d ''text'') (js_coalesce (get d ''message'') (JStr [])))"
    by (intro typeof_string_js_coalesce ok) simp
  have "\<exists>m. messageObject e sock d = Some m \<and>
        typeof_string (get m ''id'') \<and> typeof_string (get m ''senderId'') \<and>
        typeof_string (get m ''text'') \<and> typeof_string (get m ''createdAt'') \<and>
        (\<not> truthy (get d ''id'') \<longrightarrow> get m ''id'' = JStr (''tmp_'' @ toString36 (now_ms e))) \<and>
        (\<not> truthy (get d ''senderId'') \<longrightarrow> get m ''senderId'' = JStr sock) \<and>
        (nullish (get d ''text'') \<longrightarrow>
           get m ''text'' = (if nullish (get d ''message'') then JStr [] else get d ''message'')) \<and>
        (\<not> nullish (get d ''text'') \<longrightarrow> get m ''text'' = get d ''text'') \<and>
        (\<not> truthy (get d ''createdAt'') \<longrightarrow> get m ''createdAt'' = JStr (now_iso e))"
    unfolding d_def messageObject_object
    unfolding d_def [symmetric]
    apply (intro exI conjI, rule refl)
    apply (simp_all only: get_draft_object)
    using ok t
    by (simp_all add: typeof_string_js_or js_or_falsy) (simp_all add: js_coalesce_def)
  then show "\<exists>m. messageObject e sock (JObj kvs) = Some m \<and>
        typeof_string (get m ''id'') \<and> typeof_string (get m ''senderId'') \<and>
        typeof_string (get m ''text'') \<and> typeof_string (get m ''createdAt'') \<and>
        (\<not> truthy (get (JObj kvs) ''id'') \<longrightarrow> get m ''id'' = JStr (''tmp_'' @ toString36 (now_ms e))) \<and>
        (\<not> truthy (get (JObj kvs) ''senderId'') \<longrightarrow> get m ''senderId'' = JStr sock) \<and>
        (nullish (get (JObj kvs) ''text'') \<longrightarrow>
           get m ''text'' = (if nullish (get (JObj kvs) ''message'') then JStr [] else get (JObj kvs) ''message'')) \<and>
        (\<not> nullish (get (JObj kvs) ''text'') \<longrightarrow> get m ''text'' = get (JObj kvs) ''text'') \<and>
        (\<not> truthy (get (JObj kvs) ''createdAt'') \<longrightarrow> get m ''createdAt'' = JStr (now_iso e))"
    by (simp only: d_def)
next
  assume n: "nullish msg"
  then have "\<not> typeof_string msg" by (cases msg) simp_all
  with n show "messageObject e sock msg = None"
    by (simp add: messageObject_def)
  then show "on_event_message rt e st sock msg = [Console LogError ''Error handling event:message'']"
    by (simp add: on_event_message_def)
qed

theorem messageObject_fields_are_strings_witness:
  "messageObject example_env ''A'' (JStr ''hello'') =
     Some (JObj [(''id'', JStr ''tmp_loyw3v28''), (''senderId'', JStr ''A''),
                 (''text'', JStr ''hello''), (''createdAt'', JStr ''2023-11-14T22:13:20.000Z'')]) \<and>
   optional_string (get (JObj [(''id'', JNull), (''message'', JStr ''hey''), (''senderName'', JStr ''alice'')]) ''id'') \<and>
   optional_string (get (JObj [(''id'', JNull), (''message'', JStr ''hey''), (''senderName'', JStr ''alice'')]) ''message'') \<and>
   messageObject example_env ''A'' (JObj [(''id'', JNull), (''message'', JStr ''hey''), (''senderName'', JStr ''alice'')]) =
     Some (JObj [(''id'', JStr ''tmp_loyw3v28''), (''conversationId'', JUndefined),
                 (''senderId'', JStr ''A''), (''senderName'', JStr ''alice''),
                 (''text'', JStr ''hey''), (''createdAt'', JStr ''2023-11-14T22:13:20.000Z'')]) \<and>
   nullish JNull \<and>
   on_event_message (wire_runtime JNull) example_env three_sockets ''A'' JNull =
     [Console LogError ''Error handling event:message'']"
  using messageObject_fields_are_strings [of example_env "''A''" "''hello''"
      "[(''id'', JNull), (''message'', JStr ''hey''), (''senderName'', JStr ''alice'')]"
      JNull "wire_runtime JNull" three_sockets]
  by (simp add: messageObject_def optional_string_def js_or_def js_coalesce_def example_env_def
      toString36_example)

lemma delivered_to_on_event_message_other:
  "ev \<noteq> ''message'' \<Longrightarrow> delivered_to ev (on_event_message rt e st sock msg) = []"
  by (cases "messageObject e sock msg")
     (simp_all add: on_event_message_def delivered_to_fanout delivered_to_publish)

lemma delivered_to_broker_deliver_other:
  "ev \<noteq> ''message'' \<Longrightarrow> delivered_to ev (broker_deliver rt st channel payload) = []"
  by (simp add: broker_deliver_def sub_on_message_def delivered_to_io_emit split: option.split)

lemma delivered_to_on_socket_event_other:
  "ev' \<noteq> ''joined_room'' \<Longrightarrow> ev' \<noteq> ''message'' \<Longrightarrow>
   delivered_to ev' (snd (on_socket_event rt e st sock ev p)) = []"
  by (simp add: on_socket_event_def join_room_def leave_room_def on_disconnect_def
      delivered_to_on_event_message_other)

lemma adapter_sends_message_only:
  "AdapterSend rs ev v \<in> set (broadcast st rs' ev' v') \<Longrightarrow> ev = ev'"
  by (auto simp: broadcast_def local_broadcast_def split: if_splits)

lemma adapter_sends_of_on_event_message:
  "AdapterSend rs ev v \<in> set (on_event_message rt e st sock msg) \<Longrightarrow> ev = ''message''"
  by (cases "messageObject e sock msg")
     (auto simp: on_event_message_def fanout_def io_emit_def io_to_emit_def publish_def
        dest: adapter_sends_message_only split: if_splits)

lemma adapter_sends_of_on_socket_event:
  "AdapterSend rs ev' v \<in> set (snd (on_socket_event rt e st sock ev p)) \<Longrightarrow> ev' = ''message''"
  by (auto simp: on_socket_event_def join_room_def leave_room_def on_disconnect_def
      dest: adapter_sends_of_on_event_message split: if_splits)

lemma adapter_sends_of_broker_deliver:
  "AdapterSend rs ev v \<in> set (broker_deliver rt st channel payload) \<Longrightarrow> ev = ''message''"
  by (auto simp: broker_deliver_def sub_on_message_def io_emit_def
      dest: adapter_sends_message_only split: if_splits option.splits)

text \<open>
  C4. A message submitted with a room id is to reach members of that room only, on the local
  fanout and on the relay. The local fanout does so (\<open>local_fanout_room_scoped\<close>); the relay
  handler does not: with \<open>A\<close> and \<open>B\<close> in room \<open>X\<close> and \<open>C\<close> outside it, the message
  \<open>A\<close> sends to \<open>X\<close> goes to \<open>A\<close> and \<open>B\<close>, is published, and the subscription handler
  of the same instance then delivers it to \<open>C\<close> as well, and through the adapter to every
  connection of the other instances.
\<close>

theorem room_message_relayed_to_non_member:
  "messageObject example_env ''A'' room_draft = Some room_message \<and>
   delivered_to ''message''
     (on_event_message (wire_runtime room_message) example_env three_sockets ''A'' room_draft) = [''A'', ''B''] \<and>
   published_on ''Messages''
     (on_event_message (wire_runtime room_message) example_env three_sockets ''A'' room_draft) = [''wire''] \<and>
   JStr ''X'' \<notin> rooms three_sockets ''C'' \<and>
   broker_deliver (wire_runtime room_message) three_sockets ''Messages'' ''wire'' =
     [Emit ''A'' ''message'' room_message, Emit ''B'' ''message'' room_message,
      Emit ''C'' ''message'' room_message, AdapterSend [] ''message'' room_message]"
proof -
  have m: "messageObject example_env ''A'' room_draft = Some room_message"
    by (simp add: messageObject_def room_draft_def room_message_def js_or_def js_coalesce_def
        example_env_def)
  have c: "get room_message ''conversationId'' = JStr ''X''"
    by (simp add: room_message_def)
  have d: "delivered_to ''message''
     (on_event_message (wire_runtime room_message) example_env three_sockets ''A'' room_draft) = [''A'', ''B'']"
    by (simp add: delivered_to_on_event_message [OF m] delivered_to_fanout c three_sockets_conns
        three_sockets_rooms)
  have p: "published_on ''Messages''
     (on_event_message (wire_runtime room_message) example_env three_sockets ''A'' room_draft) = [''wire'']"
    unfolding on_event_message_def m
    by (simp add: published_on_fanout publish_def three_sockets_pub example_env_def wire_runtime_def)
  have r: "broker_deliver (wire_runtime room_message) three_sockets ''Messages'' ''wire'' =
     [Emit ''A'' ''message'' room_message, Emit ''B'' ''message'' room_message,
      Emit ''C'' ''message'' room_message, AdapterSend [] ''message'' room_message]"
    by (simp add: broker_deliver_def sub_on_message_def three_sockets_pub wire_runtime_def io_emit_eq
        three_sockets_conns)
  have n: "JStr ''X'' \<notin> rooms three_sockets ''C''"
    by (simp add: three_sockets_rooms)
  from m d p n r show ?thesis by blast
qed

text \<open>
  C7 as stated fails: a room join sends the joining client the \<open>joined_room\<close> acknowledgement
  and no \<open>users:online\<close> snapshot.
\<close>

theorem join_room_sends_no_snapshot:
  "snd (on_socket_event (wire_runtime JNull) example_env three_sockets ''C'' ''join_room'' room_X) =
     [Emit ''C'' ''joined_room'' (JObj [(''roomId'', JStr ''X'')])] \<and>
   delivered_to ''users:online''
     (snd (on_socket_event (wire_runtime JNull) example_env three_sockets ''C'' ''join_room'' room_X)) = []"
  by (simp add: on_socket_event_def join_room_def room_X_def)

text \<open>
  C7, amended. On a room join with a room id, the server adds the connection to the room
  named (to each room of an array of names) and sends the joining client exactly one event,
  the \<open>joined_room\<close> acknowledgement. No handler of the server (connection, socket events,
  relay subscription) emits to a connection, or sends through the adapter, any event other
  than \<open>joined_room\<close> and \<open>message\<close>: no \<open>users:online\<close> snapshot and no \<open>user:joined\<close>
  or \<open>user:left\<close> delta.
\<close>

theorem server_emits_only_ack_and_message:
  "(truthy p \<and> truthy (get p ''roomId'') \<longrightarrow>
      snd (on_socket_event rt e st sock ''join_room'' p) =
        [Emit sock ''joined_room'' (JObj [(''roomId'', get p ''roomId'')])] \<and>
      rooms (fst (on_socket_event rt e st sock ''join_room'' p)) sock =
        rooms st sock \<union> set (filter primitive (room_list (get p ''roomId'')))) \<and>
   (ev' \<noteq> ''joined_room'' \<and> ev' \<noteq> ''message'' \<longrightarrow>
      delivered_to ev' (snd (on_socket_event rt e st sock ev q)) = [] \<and>
      delivered_to ev' (broker_deliver rt st channel payload) = [] \<and>
      delivered_to ev' (snd (on_connection st sock)) = [] \<and>
      AdapterSend rs ev' v \<notin> set (snd (on_socket_event rt e st sock ev q)) \<and>
      AdapterSend rs ev' v \<notin> set (broker_deliver rt st channel payload) \<and>
      AdapterSend rs ev' v \<notin> set (snd (on_connection st sock)))"
proof (intro conjI impI)
  assume "truthy p \<and> truthy (get p ''roomId'')"
  then show "snd (on_socket_event rt e st sock ''join_room'' p) =
        [Emit sock ''joined_room'' (JObj [(''roomId'', get p ''roomId'')])]"
    and "rooms (fst (on_socket_event rt e st sock ''join_room'' p)) sock =
        rooms st sock \<union> set (filter primitive (room_list (get p ''roomId'')))"
    by (simp_all add: on_socket_event_def join_room_def)
next
  assume a: "ev' \<noteq> ''joined_room'' \<and> ev' \<noteq> ''message''"
  then show "delivered_to ev' (snd (on_socket_event rt e st sock ev q)) = []"
    and "delivered_to ev' (broker_deliver rt st channel payload) = []"
    and "delivered_to ev' (snd (on_connection st sock)) = []"
    by (simp_all add: delivered_to_on_socket_event_other delivered_to_broker_deliver_other
        on_connection_def)
  from a show "AdapterSend rs ev' v \<notin> set (snd (on_socket_event rt e st sock ev q))"
    using adapter_sends_of_on_socket_event by blast
  from a show "AdapterSend rs ev' v \<notin> set (broker_deliver rt st channel payload)"
    using adapter_sends_of_broker_deliver by blast
  show "AdapterSend rs ev' v \<notin> set (snd (on_connection st sock))"
    by (simp add: on_connection_def)
qed

theorem server_emits_only_ack_and_message_witness:
  "truthy room_X \<and> truthy (get room_X ''roomId'') \<and>
   snd (on_socket_event (wire_runtime JNull) example_env three_sockets ''C'' ''join_room'' room_X) =
     [Emit ''C'' ''joined_room'' (JObj [(''roomId'', JStr ''X'')])] \<and>
   rooms (fst (on_socket_event (wire_runtime JNull) example_env three_sockets ''C'' ''join_room'' room_X)) ''C'' =
     {JStr ''C'', JStr ''X''} \<and>
   rooms (fst (on_socket_event (wire_runtime JNull) example_env three_sockets ''C'' ''join_room''
      (JObj [(''roomId'', JArr [JStr ''X'', JStr ''Y''])]))) ''C'' = {JStr ''C'', JStr ''X'', JStr ''Y''} \<and>
   delivered_to ''user:joined''
     (snd (on_socket_event (wire_runtime JNull) example_env three_sockets ''C'' ''join_room'' room_X)) = [] \<and>
   delivered_to ''user:joined'' (broker_deliver (wire_runtime JNull) three_sockets ''Messages'' ''wire'') = []"
  using server_emits_only_ack_and_message [of room_X "wire_runtime JNull" example_env three_sockets
      "''C''" "''user:joined''" "''join_room''" room_X "''Messages''" "''wire''"]
    server_emits_only_ack_and_message [of "JObj [(''roomId'', JArr [JStr ''X'', JStr ''Y''])]"
      "wire_runtime JNull" example_env three_sockets
      "''C''" "''user:joined''" "''join_room''" room_X "''Messages''" "''wire''"]
  by (simp add: room_X_def three_sockets_rooms) auto

section \<open>Properties of the client\<close>

lemma socket_emits_simps [simp]:
  "socket_emits [] = []"
  "socket_emits (SocketEmit ev p # xs) = (ev, p) # socket_emits xs"
  "socket_emits (Warn w # xs) = socket_emits xs"
  by (simp_all add: socket_emits_def)

subsection \<open>Trimming\<close>

lemma dropWhile_snoc_keeps_last:
  "\<not> P x \<Longrightarrow> \<exists>ys. dropWhile P (zs @ [x]) = ys @ [x]"
  by (induction zs) auto

lemma trim_Nil_or_edges:
  "trim s = [] \<or> (\<not> isWhiteSpace (hd (trim s)) \<and> \<not> isWhiteSpace (last (trim s)))"
proof (cases "dropWhile isWhiteSpace s")
  case Nil
  have "trim s = rev (dropWhile isWhiteSpace (rev []))"
    unfolding trim_def Nil ..
  then show ?thesis by simp
next
  case (Cons x xs)
  have nx: "\<not> isWhiteSpace x"
    using Cons by (metis dropWhile_eq_Cons_conv)
  obtain ys where ys: "dropWhile isWhiteSpace (rev xs @ [x]) = ys @ [x]"
    using dropWhile_snoc_keeps_last [of isWhiteSpace x "rev xs"] nx by blast
  have t: "trim s = rev (ys @ [x])"
    unfolding trim_def Cons using ys by simp
  have "dropWhile isWhiteSpace (rev xs @ [x]) \<noteq> []"
    unfolding ys by simp
  then have "\<not> isWhiteSpace (hd (dropWhile isWhiteSpace (rev xs @ [x])))"
    by (rule hd_dropWhile)
  then have "\<not> isWhiteSpace (hd (ys @ [x]))"
    unfolding ys .
  moreover have "last (trim s) = hd (ys @ [x])"
    unfolding t by (rule last_rev)
  moreover have "hd (trim s) = x"
    unfolding t by simp
  ultimately show ?thesis using nx by simp
qed

lemma trim_idem: "trim (trim s) = trim s"
proof (cases "trim s = []")
  case True
  have "trim [] = []" by (simp add: trim_def)
  with True show ?thesis by simp
next
  case False
  then have e: "\<not> isWhiteSpace (hd (trim s))" "\<not> isWhiteSpace (last (trim s))"
    using trim_Nil_or_edges [of s] by auto
  from False e(1) have a: "dropWhile isWhiteSpace (trim s) = trim s"
    by (cases "trim s") simp_all
  from False e(2) have "\<not> isWhiteSpace (hd (rev (trim s)))"
    by (simp add: hd_rev)
  with False have b: "dropWhile isWhiteSpace (rev (trim s)) = rev (trim s)"
    by (cases "rev (trim s)") simp_all
  show ?thesis
    unfolding trim_def [of "trim s"] a b by simp
qed

lemma code_units_eq_Nil [simp]: "code_units s = [] \<longleftrightarrow> s = []"
  by (simp add: code_units_def)

lemma trim_examples:
  "trim (code_units ''   '') = []"
  "trim (code_units ''  hi  '') = code_units ''hi''"
  "trim (code_units ''hi'') = code_units ''hi''"
  "trim [8195, 12288, 65279] = []"
  by (simp_all add: trim_def isWhiteSpace_def code_units_def)

subsection \<open>Reconciliation\<close>

lemma count_replace:
  "id_m c = k \<Longrightarrow>
   length (filter (\<lambda>m. id_m m = k) (map (\<lambda>m. if id_m m = k then c else m) xs)) =
   length (filter (\<lambda>m. id_m m = k) xs)"
  by (induction xs) auto

lemma onMessageReceived_replace:
  "\<exists>m \<in> set prev. id_m m = id_m msg \<Longrightarrow>
   onMessageReceived msg prev = map (\<lambda>m. if id_m m = id_m msg then msg else m) prev"
  by (simp add: onMessageReceived_def list_ex_iff)

lemma onMessageReceived_append:
  "\<forall>m \<in> set prev. id_m m \<noteq> id_m msg \<Longrightarrow> onMessageReceived msg prev = prev @ [msg]"
  by (simp add: onMessageReceived_def list_ex_iff)

lemma messages_sendMessage:
  "socket_connected p \<Longrightarrow>
   messages (fst (sendMessage ce p txt)) =
     messages p @ [\<lparr>id_m = tempId ce, conversationId = None, senderId = currentUserId p,
                    senderName = Some (currentUserName p), text_m = txt, createdAt = c_now_iso ce\<rparr>]"
  by (simp add: sendMessage_def Let_def)

lemma optimistic_copy_replaced:
  assumes "socket_connected p" and "id_m canon = tempId ce"
  shows "onMessageReceived canon (messages (fst (sendMessage ce p txt))) =
           map (\<lambda>m. if id_m m = tempId ce then canon else m) (messages p) @ [canon]"
proof -
  let ?opt = "\<lparr>id_m = tempId ce, conversationId = None, senderId = currentUserId p,
               senderName = Some (currentUserName p), text_m = txt, createdAt = c_now_iso ce\<rparr>"
  have sent: "messages (fst (sendMessage ce p txt)) = messages p @ [?opt]"
    using assms(1) by (rule messages_sendMessage)
  have "\<exists>m \<in> set (messages p @ [?opt]). id_m m = id_m canon"
    using assms(2) by simp
  then have "onMessageReceived canon (messages p @ [?opt]) =
      map (\<lambda>m. if id_m m = id_m canon then canon else m) (messages p @ [?opt])"
    by (rule onMessageReceived_replace)
  then show ?thesis using assms(2) sent by simp
qed

subsection \<open>Typing state\<close>

lemma set_typing_add: "set (typing_add u xs) = insert u (set xs)"
  by (auto simp: typing_add_def)

lemma set_typing_remove: "set (typing_remove u xs) = set xs - {u}"
  by (auto simp: typing_remove_def)

lemma on_socket_keeps_typing:
  "List.member (typingUsers p) u \<Longrightarrow> \<not> is_stop_for u ev \<Longrightarrow>
   List.member (typingUsers (fst (on_socket p ev))) u"
  by (cases ev) (auto simp: set_typing_add set_typing_remove)

lemma run_socket_keeps_typing:
  "List.member (typingUsers p) u \<Longrightarrow> \<not> list_ex (is_stop_for u) evs \<Longrightarrow>
   List.member (typingUsers (run_socket p evs)) u"
proof (induction evs arbitrary: p)
  case Nil
  then show ?case by simp
next
  case (Cons ev evs)
  from Cons.prems have "List.member (typingUsers (fst (on_socket p ev))) u"
    by (intro on_socket_keeps_typing) simp_all
  moreover from Cons.prems have "\<not> list_ex (is_stop_for u) evs" by simp
  ultimately show ?case using Cons.IH by simp
qed

section \<open>Claims on the client\<close>

text \<open>
  C1 as stated fails on the server: a draft whose text is three spaces is fanned out to every
  connection and published to the relay topic.
\<close>

theorem server_fans_out_blank_text:
  "trim (code_units ''   '') = [] \<and>
   delivered_to ''message''
     (on_event_message (wire_runtime JNull) example_env three_sockets ''A''
        (JObj [(''text'', JStr ''   '')])) = [''A'', ''B'', ''C''] \<and>
   published_on ''Messages''
     (on_event_message (wire_runtime JNull) example_env three_sockets ''A''
        (JObj [(''text'', JStr ''   '')])) = [''wire'']"
  by (simp add: trim_examples on_event_message_def messageObject_def js_or_def
      js_coalesce_def delivered_to_fanout published_on_fanout delivered_to_publish publish_def
      three_sockets_conns three_sockets_pub example_env_def wire_runtime_def)

text \<open>
  C1, amended. A message whose text is empty or whitespace-only after trimming is rejected
  by the client's \<open>handleSend\<close>: the page is unchanged and nothing is sent. Every
  \<open>event:message\<close> that \<open>handleSend\<close> sends carries the trimmed input, which is not empty
  and not blank. The server's handler applies no test to the text: every object draft,
  whatever its text, is delivered to the connections of the instance that its room id selects
  (every connection when it has none) and is published to the relay topic where \<open>pub\<close> is
  defined and the broker accepts the call.
\<close>

theorem handleSend_rejects_blank_text:
  "(trim (message pg) = [] \<longrightarrow> handleSend ce pg = (pg, [])) \<and>
   (\<forall>m. (''event:message'', PMessage m) \<in> set (socket_emits (snd (handleSend ce pg))) \<longrightarrow>
        text_m m = trim (message pg) \<and> trim (text_m m) \<noteq> []) \<and>
   (\<exists>m. messageObject e sock (JObj kvs) = Some m \<and>
        delivered_to ''message'' (on_event_message rt e st sock (JObj kvs)) =
          (if truthy (get (JObj kvs) ''conversationId'')
           then filter (\<lambda>s. room_list (get (JObj kvs) ''conversationId'') = [] \<or>
                   (\<exists>r \<in> set (room_list (get (JObj kvs) ''conversationId'')). r \<in> rooms st s)) (conns st)
           else conns st) \<and>
        published_on ''Messages'' (on_event_message rt e st sock (JObj kvs)) =
          (if pub st \<and> publish_ok e then [JSON_stringify rt m] else []))"
proof (intro conjI)
  show "trim (message pg) = [] \<longrightarrow> handleSend ce pg = (pg, [])"
    by (simp add: handleSend_def)
  show "\<forall>m. (''event:message'', PMessage m) \<in> set (socket_emits (snd (handleSend ce pg))) \<longrightarrow>
        text_m m = trim (message pg) \<and> trim (text_m m) \<noteq> []"
    by (auto simp: handleSend_def sendMessage_def Let_def trim_idem)
  obtain m where m: "messageObject e sock (JObj kvs) = Some m"
    and c: "get m ''conversationId'' = get (JObj kvs) ''conversationId''"
    unfolding messageObject_object by (simp only: get_draft_object)
  have "delivered_to ''message'' (on_event_message rt e st sock (JObj kvs)) =
          (if truthy (get (JObj kvs) ''conversationId'')
           then filter (\<lambda>s. room_list (get (JObj kvs) ''conversationId'') = [] \<or>
                   (\<exists>r \<in> set (room_list (get (JObj kvs) ''conversationId'')). r \<in> rooms st s)) (conns st)
           else conns st)"
    by (simp add: delivered_to_on_event_message [OF m] delivered_to_fanout c)
  moreover have "published_on ''Messages'' (on_event_message rt e st sock (JObj kvs)) =
          (if pub st \<and> publish_ok e then [JSON_stringify rt m] else [])"
    by (rule published_on_on_event_message [OF m])
  ultimately show "\<exists>m. messageObject e sock (JObj kvs) = Some m \<and>
        delivered_to ''message'' (on_event_message rt e st sock (JObj kvs)) =
          (if truthy (get (JObj kvs) ''conversationId'')
           then filter (\<lambda>s. room_list (get (JObj kvs) ''conversationId'') = [] \<or>
                   (\<exists>r \<in> set (room_list (get (JObj kvs) ''conversationId'')). r \<in> rooms st s)) (conns st)
           else conns st) \<and>
        published_on ''Messages'' (on_event_message rt e st sock (JObj kvs)) =
          (if pub st \<and> publish_ok e then [JSON_stringify rt m] else [])"
    using m by blast
qed

theorem handleSend_rejects_blank_text_witness:
  "trim (message (example_page (code_units ''   '') example_provider)) = [] \<and>
   handleSend example_client_env (example_page (code_units ''   '') example_provider) =
     (example_page (code_units ''   '') example_provider, []) \<and>
   handleSend example_client_env (example_page [8195, 12288, 65279] example_provider) =
     (example_page [8195, 12288, 65279] example_provider, []) \<and>
   socket_emits (snd (handleSend example_client_env (example_page (code_units ''  hi  '') example_provider))) =
     [(''event:message'',
       PMessage \<lparr>id_m = ''tmp_loyw3v28_4fz'', conversationId = None, senderId = ''u1'',
                 senderName = Some ''alice'', text_m = code_units ''hi'',
                 createdAt = ''2023-11-14T22:13:20.000Z''\<rparr>)]"
  using handleSend_rejects_blank_text [of "example_page (code_units ''   '') example_provider"
      example_client_env example_env "''A''" "[(''text'', JStr ''   '')]" "wire_runtime JNull" three_sockets]
    handleSend_rejects_blank_text [of "example_page [8195, 12288, 65279] example_provider"
      example_client_env example_env "''A''" "[(''text'', JStr ''   '')]" "wire_runtime JNull" three_sockets]
  by (simp add: example_page_def example_provider_def example_client_env_def trim_examples
      handleSend_def sendMessage_def tempId_def toString36_example Let_def)

text \<open>
  C3. The reconciliation step replaces the list entries whose id equals the incoming
  message's id (the list keeps its length, every other entry stays, and the number of entries
  with that id is unchanged), and appends the incoming message at the end when no entry has
  its id. In particular the optimistic copy that \<open>sendMessage\<close> appended under the temporary
  id is replaced by the canonical copy with the same id, not duplicated.
\<close>

theorem reconcile_replace_else_append:
  "((\<exists>m \<in> set prev. id_m m = id_m msg) \<longrightarrow>
      length (onMessageReceived msg prev) = length prev \<and>
      (\<forall>i < length prev. onMessageReceived msg prev ! i =
          (if id_m (prev ! i) = id_m msg then msg else prev ! i)) \<and>
      length (filter (\<lambda>m. id_m m = id_m msg) (onMessageReceived msg prev)) =
        length (filter (\<lambda>m. id_m m = id_m msg) prev)) \<and>
   ((\<forall>m \<in> set prev. id_m m \<noteq> id_m msg) \<longrightarrow> onMessageReceived msg prev = prev @ [msg]) \<and>
   (socket_connected p \<and> id_m canon = tempId ce \<longrightarrow>
      onMessageReceived canon (messages (fst (sendMessage ce p txt))) =
        map (\<lambda>m. if id_m m = tempId ce then canon else m) (messages p) @ [canon])"
proof (intro conjI impI)
  assume ex: "\<exists>m \<in> set prev. id_m m = id_m msg"
  note r = onMessageReceived_replace [OF ex]
  show "length (onMessageReceived msg prev) = length prev"
    by (simp add: r)
  show "\<forall>i < length prev. onMessageReceived msg prev ! i =
          (if id_m (prev ! i) = id_m msg then msg else prev ! i)"
    by (simp add: r)
  show "length (filter (\<lambda>m. id_m m = id_m msg) (onMessageReceived msg prev)) =
        length (filter (\<lambda>m. id_m m = id_m msg) prev)"
    unfolding r by (rule count_replace) (rule refl)
next
  assume "\<forall>m \<in> set prev. id_m m \<noteq> id_m msg"
  then show "onMessageReceived msg prev = prev @ [msg]"
    by (rule onMessageReceived_append)
next
  assume "socket_connected p \<and> id_m canon = tempId ce"
  then show "onMessageReceived canon (messages (fst (sendMessage ce p txt))) =
        map (\<lambda>m. if id_m m = tempId ce then canon else m) (messages p) @ [canon]"
    by (simp add: optimistic_copy_replaced)
qed

theorem reconcile_replace_else_append_witness:
  "onMessageReceived
      \<lparr>id_m = ''tmp_1'', conversationId = None, senderId = ''u1'', senderName = Some ''alice'',
        text_m = code_units ''hi'', createdAt = ''server-time''\<rparr>
      [\<lparr>id_m = ''m0'', conversationId = None, senderId = ''u2'', senderName = None,
         text_m = code_units ''yo'', createdAt = ''t0''\<rparr>,
       \<lparr>id_m = ''tmp_1'', conversationId = None, senderId = ''u1'', senderName = Some ''alice'',
         text_m = code_units ''hi'', createdAt = ''client-time''\<rparr>] =
      [\<lparr>id_m = ''m0'', conversationId = None, senderId = ''u2'', senderName = None,
         text_m = code_units ''yo'', createdAt = ''t0''\<rparr>,
       \<lparr>id_m = ''tmp_1'', conversationId = None, senderId = ''u1'', senderName = Some ''alice'',
         text_m = code_units ''hi'', createdAt = ''server-time''\<rparr>] \<and>
   onMessageReceived
      \<lparr>id_m = ''m9'', conversationId = None, senderId = ''u3'', senderName = None,
        text_m = code_units ''new'', createdAt = ''t9''\<rparr>
      [\<lparr>id_m = ''m0'', conversationId = None, senderId = ''u2'', senderName = None,
         text_m = code_units ''yo'', createdAt = ''t0''\<rparr>] =
      [\<lparr>id_m = ''m0'', conversationId = None, senderId = ''u2'', senderName = None,
         text_m = code_units ''yo'', createdAt = ''t0''\<rparr>,
       \<lparr>id_m = ''m9'', conversationId = None, senderId = ''u3'', senderName = None,
        text_m = code_units ''new'', createdAt = ''t9''\<rparr>] \<and>
   socket_connected example_provider \<and>
   onMessageReceived
      \<lparr>id_m = tempId example_client_env, conversationId = None, senderId = ''u1'',
        senderName = Some ''alice'', text_m = code_units ''hi'', createdAt = ''server-time''\<rparr>
      (messages (fst (sendMessage example_client_env example_provider (code_units ''hi'')))) =
      [\<lparr>id_m = tempId example_client_env, conversationId = None, senderId = ''u1'',
        senderName = Some ''alice'', text_m = code_units ''hi'', createdAt = ''server-time''\<rparr>]"
  using reconcile_replace_else_append
    [of "[\<lparr>id_m = ''m0'', conversationId = None, senderId = ''u2'', senderName = None,
            text_m = code_units ''yo'', createdAt = ''t0''\<rparr>,
          \<lparr>id_m = ''tmp_1'', conversationId = None, senderId = ''u1'', senderName = Some ''alice'',
            text_m = code_units ''hi'', createdAt = ''client-time''\<rparr>]"
        "\<lparr>id_m = ''tmp_1'', conversationId = None, senderId = ''u1'', senderName = Some ''alice'',
           text_m = code_units ''hi'', createdAt = ''server-time''\<rparr>"
        example_provider
        "\<lparr>id_m = tempId example_client_env, conversationId = None, senderId = ''u1'',
           senderName = Some ''alice'', text_m = code_units ''hi'', createdAt = ''server-time''\<rparr>"
        example_client_env "code_units ''hi''"]
    reconcile_replace_else_append
    [of "[\<lparr>id_m = ''m0'', conversationId = None, senderId = ''u2'', senderName = None,
            text_m = code_units ''yo'', createdAt = ''t0''\<rparr>]"
        "\<lparr>id_m = ''m9'', conversationId = None, senderId = ''u3'', senderName = None,
           text_m = code_units ''new'', createdAt = ''t9''\<rparr>"
        example_provider
        "\<lparr>id_m = tempId example_client_env, conversationId = None, senderId = ''u1'',
           senderName = Some ''alice'', text_m = code_units ''hi'', createdAt = ''server-time''\<rparr>"
        example_client_env "code_units ''hi''"]
  by (simp add: onMessageReceived_def sendMessage_def example_provider_def Let_def)

text \<open>
  C9. A send attempted while the connection is down is rejected locally. \<open>sendMessage\<close> on a
  socket that is not connected changes nothing and only warns; \<open>handleSend\<close>, when the page
  shows the connection as down or the socket is not connected, appends no optimistic copy and
  emits nothing. Nothing is queued: when the connection comes back, the only event the client
  sends is its \<open>user:join\<close> announcement.
\<close>

theorem send_while_disconnected_rejected:
  "(\<not> socket_connected p \<longrightarrow>
      sendMessage ce p txt = (p, [Warn ''Socket not connected, cannot send message''])) \<and>
   (\<not> connected (ctx pg) \<or> \<not> socket_connected (ctx pg) \<longrightarrow>
      messages (ctx (fst (handleSend ce pg))) = messages (ctx pg) \<and>
      socket_emits (snd (handleSend ce pg)) = []) \<and>
   (\<not> socket_connected p \<longrightarrow>
      socket_emits (snd (on_socket (fst (sendMessage ce p txt)) Connect)) =
        [(''user:join'', PUser (currentUserId p) (currentUserName p))] \<and>
      messages (fst (on_socket (fst (sendMessage ce p txt)) Connect)) = messages p)"
  by (auto simp: sendMessage_def handleSend_def Let_def)

theorem send_while_disconnected_rejected_witness:
  "\<not> socket_connected (fst (on_socket example_provider Disconnect)) \<and>
   sendMessage example_client_env (fst (on_socket example_provider Disconnect)) (code_units ''hi'') =
     (fst (on_socket example_provider Disconnect), [Warn ''Socket not connected, cannot send message'']) \<and>
   handleSend example_client_env (example_page (code_units ''hi'') (fst (on_socket example_provider Disconnect))) =
     (example_page (code_units ''hi'') (fst (on_socket example_provider Disconnect)),
      [Warn ''Cannot send message: socket is not connected'']) \<and>
   socket_emits (snd (on_socket
      (fst (sendMessage example_client_env (fst (on_socket example_provider Disconnect)) (code_units ''hi''))) Connect)) =
     [(''user:join'', PUser ''u1'' ''alice'')]"
  using send_while_disconnected_rejected [of "fst (on_socket example_provider Disconnect)"
      example_client_env "code_units ''hi''" "example_page (code_units ''hi'') (fst (on_socket example_provider Disconnect))"]
  by (simp add: sendMessage_def handleSend_def example_page_def example_provider_def
      trim_examples)

text \<open>
  C6 as stated fails: there is no expiry. The server has no listener for \<open>user:typing\<close> and
  emits nothing for it, and a client that received \<open>user:typing\<close> for \<open>alice\<close> still shows
  her as typing after any further events that are not her \<open>user:stop-typing\<close>.
\<close>

theorem typing_never_expires:
  "on_socket_event (wire_runtime JNull) example_env three_sockets ''A'' ''user:typing''
      (JObj [(''userId'', JStr ''u1''), (''username'', JStr ''alice'')]) = (three_sockets, []) \<and>
   typingUsers (run_socket example_provider
      [UserTyping ''u1'' ''alice'', UsersOnline [''u1''], UserTyping ''u2'' ''bob'',
       UserStopTyping ''u2'' ''bob'', Disconnect, Connect]) = [''alice'']"
  by (simp add: on_socket_event_def example_provider_def typing_add_def typing_remove_def)

text \<open>
  C6, amended. A typing entry is cleared only by an explicit \<open>user:stop-typing\<close> event for
  that user name: after \<open>user:typing\<close>, the name stays in the client's typing list through
  every sequence of events that contains no stop for it, and a stop removes it. The server
  registers no typing listener and emits nothing for typing events; no stop notification is
  produced by the passing of time.
\<close>

theorem typing_cleared_only_by_stop:
  "(\<not> list_ex (is_stop_for u) evs \<longrightarrow>
      List.member (typingUsers (run_socket (fst (on_socket p (UserTyping uid u))) evs)) u) \<and>
   \<not> List.member (typingUsers (fst (on_socket p (UserStopTyping uid u)))) u \<and>
   on_socket_event rt e st sock ''user:typing'' q = (st, []) \<and>
   on_socket_event rt e st sock ''user:stop-typing'' q = (st, [])"
proof (intro conjI impI)
  have "List.member (typingUsers (fst (on_socket p (UserTyping uid u)))) u"
    by (simp add: set_typing_add)
  moreover assume "\<not> list_ex (is_stop_for u) evs"
  ultimately show "List.member (typingUsers (run_socket (fst (on_socket p (UserTyping uid u))) evs)) u"
    by (rule run_socket_keeps_typing)
next
  show "\<not> List.member (typingUsers (fst (on_socket p (UserStopTyping uid u)))) u"
    by (simp add: set_typing_remove)
next
  show "on_socket_event rt e st sock ''user:typing'' q = (st, [])"
    and "on_socket_event rt e st sock ''user:stop-typing'' q = (st, [])"
    by (simp_all add: on_socket_event_def)
qed

theorem typing_cleared_only_by_stop_witness:
  "\<not> list_ex (is_stop_for ''alice'') [UsersOnline [''u1''], UserStopTyping ''u2'' ''bob'', Disconnect] \<and>
   List.member (typingUsers (run_socket (fst (on_socket example_provider (UserTyping ''u1'' ''alice'')))
      [UsersOnline [''u1''], UserStopTyping ''u2'' ''bob'', Disconnect])) ''alice'' \<and>
   typingUsers (run_socket example_provider
      [UserTyping ''u1'' ''alice'', UserStopTyping ''u1'' ''alice'']) = []"
  using typing_cleared_only_by_stop [of "''alice''"
      "[UsersOnline [''u1''], UserStopTyping ''u2'' ''bob'', Disconnect]" example_provider "''u1''"
      "wire_runtime JNull" example_env three_sockets "''A''" JNull]
  by (simp add: example_provider_def typing_add_def typing_remove_def)

end
